theory Spec2Isabelle
  imports Complex_Main "HOL-Library.Word" "HOL-Library.Sublist"
begin

unbundle bit_operations_syntax

section \<open>Values and exceptions\<close>

text \<open>
  The gateway (\<^verbatim>\<open>src/inference/multimodal_base.py\<close>) and the proxy
  (\<^verbatim>\<open>src/backend/server.py\<close>) pass JSON-shaped Python values around: dictionaries,
  lists, strings, integers, booleans and \<^verbatim>\<open>None\<close>. A dictionary is an association list
  in insertion order with distinct keys. A \<^typ>\<open>char\<close> stands for a code point below 256.
  Floating-point members (only \<^verbatim>\<open>logprobs\<close>, which this server never requests) are not
  part of the model.
\<close>

datatype json =
    JNull
  | JBool bool
  | JInt int
  | JStr string
  | JArr "json list"
  | JObj "(string \<times> json) list"

text \<open>
  Python exceptions, each with its message. \<open>HTTPException\<close> carries the status code
  and the detail; \<open>EngineFailure\<close> is any exception raised by the
  inference engine or by the HTTP client, \<open>CancelledError\<close> is not an \<^verbatim>\<open>Exception\<close>
  and does not occur in the sequential model.
\<close>

datatype exn =
    TypeError string
  | AttributeError string
  | KeyError string
  | IndexError string
  | ValueError string
  | BinasciiError string
  | HTTPException nat string
  | EngineFailure string

section \<open>\<^verbatim>\<open>json.dumps\<close> with its defaults\<close>

definition digit_char :: "nat \<Rightarrow> char" where
  "digit_char d = ''0123456789'' ! d"

function show_nat :: "nat \<Rightarrow> string" where
  "show_nat n = (if n < 10 then [digit_char n] else show_nat (n div 10) @ [digit_char (n mod 10)])"
  by pat_completeness auto
termination
  by (relation "measure id") auto

declare show_nat.simps [simp del]

definition show_int :: "int \<Rightarrow> string" where
  "show_int i = (if i < 0 then CHR ''-'' # show_nat (nat (- i)) else show_nat (nat i))"

text \<open>Lower-case hexadecimal digit, as in the \<^verbatim>\<open>\uXXXX\<close> escapes.\<close>

definition hex_char :: "nat \<Rightarrow> char" where
  "hex_char d = ''0123456789abcdef'' ! d"

text \<open>
  \<^verbatim>\<open>ensure_ascii=True\<close>: the quote and the backslash are escaped, the five short escapes
  are used, and every other character outside \<^verbatim>\<open>' '..'~'\<close> becomes \<^verbatim>\<open>\u00XX\<close>.
\<close>

definition escape_char :: "char \<Rightarrow> string" where
  "escape_char c =
     (let n = (of_char c :: nat) in
      if c = CHR 0x22 then [CHR 0x5C, CHR 0x22]
      else if c = CHR 0x5C then [CHR 0x5C, CHR 0x5C]
      else if n = 10 then [CHR 0x5C, CHR ''n'']
      else if n = 13 then [CHR 0x5C, CHR ''r'']
      else if n = 9 then [CHR 0x5C, CHR ''t'']
      else if n = 8 then [CHR 0x5C, CHR ''b'']
      else if n = 12 then [CHR 0x5C, CHR ''f'']
      else if 32 \<le> n \<and> n \<le> 126 then [c]
      else [CHR 0x5C, CHR ''u'', CHR ''0'', CHR ''0'', hex_char (n div 16), hex_char (n mod 16)])"

definition dumps_str :: "string \<Rightarrow> string" where
  "dumps_str s = [CHR 0x22] @ concat (map escape_char s) @ [CHR 0x22]"

text \<open>Items joined by a separator, as \<^verbatim>\<open>sep.join(items)\<close>.\<close>

fun join :: "string \<Rightarrow> string list \<Rightarrow> string" where
  "join sep [] = []"
| "join sep [x] = x"
| "join sep (x # y # ys) = x @ sep @ join sep (y # ys)"

fun dumps :: "json \<Rightarrow> string" where
  "dumps JNull = ''null''"
| "dumps (JBool b) = (if b then ''true'' else ''false'')"
| "dumps (JInt i) = show_int i"
| "dumps (JStr s) = dumps_str s"
| "dumps (JArr xs) = ''['' @ join '', '' (map dumps xs) @ '']''"
| "dumps (JObj kvs) =
     ''{'' @ join '', '' (map (\<lambda>kv. dumps_str (fst kv) @ '': '' @ dumps (snd kv)) kvs) @ ''}''"

section \<open>Python operations on dynamically typed values\<close>

definition type_name :: "json \<Rightarrow> string" where
  "type_name j = (case j of JNull \<Rightarrow> ''NoneType'' | JBool _ \<Rightarrow> ''bool'' | JInt _ \<Rightarrow> ''int''
     | JStr _ \<Rightarrow> ''str'' | JArr _ \<Rightarrow> ''list'' | JObj _ \<Rightarrow> ''dict'')"

definition no_attribute :: "string \<Rightarrow> string \<Rightarrow> exn" where
  "no_attribute ty attr =
     AttributeError ([CHR 0x27] @ ty @ [CHR 0x27] @ '' object has no attribute ''
                     @ [CHR 0x27] @ attr @ [CHR 0x27])"

text \<open>\<^verbatim>\<open>d.get(k)\<close> and \<^verbatim>\<open>d.get(k, default)\<close> on a dictionary.\<close>

definition dict_get :: "(string \<times> json) list \<Rightarrow> string \<Rightarrow> json \<Rightarrow> json" where
  "dict_get d k dflt = (case map_of d k of None \<Rightarrow> dflt | Some v \<Rightarrow> v)"

text \<open>\<^verbatim>\<open>x.get(k, default)\<close> on any value: only a dictionary has the method.\<close>

definition py_get :: "json \<Rightarrow> string \<Rightarrow> json \<Rightarrow> exn + json" where
  "py_get x k dflt = (case x of JObj d \<Rightarrow> Inr (dict_get d k dflt)
     | _ \<Rightarrow> Inl (no_attribute (type_name x) ''get''))"

text \<open>\<^verbatim>\<open>k in x\<close> for a string \<open>k\<close>: key test, list membership or substring test.\<close>

definition py_in :: "string \<Rightarrow> json \<Rightarrow> exn + bool" where
  "py_in k x = (case x of JObj d \<Rightarrow> Inr (map_of d k \<noteq> None)
     | JArr xs \<Rightarrow> Inr (JStr k \<in> set xs)
     | JStr s \<Rightarrow> Inr (sublist k s)
     | _ \<Rightarrow> Inl (TypeError (''argument of type '' @ [CHR 0x27] @ type_name x @ [CHR 0x27]
                             @ '' is not iterable'')))"

text \<open>\<^verbatim>\<open>x[k]\<close> for a string \<open>k\<close>.\<close>

definition py_getitem :: "json \<Rightarrow> string \<Rightarrow> exn + json" where
  "py_getitem x k = (case x of
       JObj d \<Rightarrow> (case map_of d k of None \<Rightarrow> Inl (KeyError ([CHR 0x27] @ k @ [CHR 0x27]))
                                   | Some v \<Rightarrow> Inr v)
     | JArr _ \<Rightarrow> Inl (TypeError ''list indices must be integers or slices, not str'')
     | JStr _ \<Rightarrow> Inl (TypeError (''string indices must be integers, not ''
                              @ [CHR 0x27] @ ''str'' @ [CHR 0x27]))
     | _ \<Rightarrow> Inl (TypeError ([CHR 0x27] @ type_name x @ [CHR 0x27]
                              @ '' object is not subscriptable'')))"

text \<open>\<^verbatim>\<open>len(x)\<close>.\<close>

definition py_len :: "json \<Rightarrow> exn + nat" where
  "py_len x = (case x of JObj d \<Rightarrow> Inr (length d) | JArr xs \<Rightarrow> Inr (length xs)
     | JStr s \<Rightarrow> Inr (length s)
     | _ \<Rightarrow> Inl (TypeError (''object of type '' @ [CHR 0x27] @ type_name x @ [CHR 0x27]
                             @ '' has no len()'')))"

text \<open>\<^verbatim>\<open>x[0]\<close>, evaluated only where \<^verbatim>\<open>len(x) > 0\<close> has held.\<close>

definition py_first :: "json \<Rightarrow> exn + json" where
  "py_first x = (case x of
       JArr (y # _) \<Rightarrow> Inr y
     | JStr (c # _) \<Rightarrow> Inr (JStr [c])
     | JObj _ \<Rightarrow> Inl (KeyError ''0'')
     | JArr [] \<Rightarrow> Inl (IndexError ''list index out of range'')
     | JStr [] \<Rightarrow> Inl (IndexError ''string index out of range'')
     | _ \<Rightarrow> Inl (TypeError ([CHR 0x27] @ type_name x @ [CHR 0x27]
                              @ '' object is not subscriptable'')))"

section \<open>\<^verbatim>\<open>base64.b64encode\<close> and \<^verbatim>\<open>base64.b64decode\<close>\<close>

type_synonym byte = "8 word"

definition b64_alphabet :: string where
  "b64_alphabet = ''ABCDEFGHIJKLMNOPQRSTUVWXYZabcdefghijklmnopqrstuvwxyz0123456789+/''"

definition b2a :: "byte \<Rightarrow> char" where
  "b2a x = b64_alphabet ! unat (x AND 63)"

fun b64encode :: "byte list \<Rightarrow> string" where
  "b64encode [] = []"
| "b64encode [a] = [b2a (drop_bit 2 a), b2a (push_bit 4 (a AND 3)), CHR ''='', CHR ''='']"
| "b64encode [a, b] =
     [b2a (drop_bit 2 a), b2a (push_bit 4 (a AND 3) OR drop_bit 4 b),
      b2a (push_bit 2 (b AND 15)), CHR ''='']"
| "b64encode (a # b # c # rest) =
     [b2a (drop_bit 2 a), b2a (push_bit 4 (a AND 3) OR drop_bit 4 b),
      b2a (push_bit 2 (b AND 15) OR drop_bit 6 c), b2a (c AND 63)] @ b64encode rest"

text \<open>The decoding table of \<^verbatim>\<open>binascii\<close>: the value of an alphabet character.\<close>

definition a2b :: "char \<Rightarrow> byte option" where
  "a2b c =
     (let n = (of_char c :: nat) in
      if 65 \<le> n \<and> n \<le> 90 then Some (of_nat (n - 65))
      else if 97 \<le> n \<and> n \<le> 122 then Some (of_nat (n - 71))
      else if 48 \<le> n \<and> n \<le> 57 then Some (of_nat (n + 4))
      else if c = CHR ''+'' then Some 62
      else if c = CHR ''/'' then Some 63
      else None)"

text \<open>
  The loop of \<^verbatim>\<open>binascii.a2b_base64\<close> in its default, non-strict mode: a character
  outside the alphabet is discarded, a pad that completes a quad ends the decoding, and
  input that stops inside a quad is an error.
\<close>

fun a2b_base64 :: "string \<Rightarrow> nat \<Rightarrow> byte \<Rightarrow> nat \<Rightarrow> byte list \<Rightarrow> exn + byte list" where
  "a2b_base64 [] quad_pos leftchar pads out =
     (if quad_pos = 0 then Inr out
      else if quad_pos = 1 then
        Inl (BinasciiError (''Invalid base64-encoded string: number of data characters (''
               @ show_nat (length out div 3 * 4 + 1)
               @ '') cannot be 1 more than a multiple of 4''))
      else Inl (BinasciiError ''Incorrect padding''))"
| "a2b_base64 (c # cs) quad_pos leftchar pads out =
     (if c = CHR ''='' then
        (if quad_pos \<ge> 2 then
           (if quad_pos + (pads + 1) \<ge> 4 then Inr out
            else a2b_base64 cs quad_pos leftchar (pads + 1) out)
         else a2b_base64 cs quad_pos leftchar pads out)
      else
        (case a2b c of
           None \<Rightarrow> a2b_base64 cs quad_pos leftchar pads out
         | Some this_ch \<Rightarrow>
             (if quad_pos = 0 then a2b_base64 cs 1 this_ch 0 out
              else if quad_pos = 1 then
                a2b_base64 cs 2 (this_ch AND 15) 0
                  (out @ [push_bit 2 leftchar OR drop_bit 4 this_ch])
              else if quad_pos = 2 then
                a2b_base64 cs 3 (this_ch AND 3) 0
                  (out @ [push_bit 4 leftchar OR drop_bit 2 this_ch])
              else
                a2b_base64 cs 0 0 0 (out @ [push_bit 6 leftchar OR this_ch]))))"

text \<open>
  \<^verbatim>\<open>base64.b64decode(s)\<close> on a string: the string is encoded as ASCII first, which
  raises \<^verbatim>\<open>ValueError\<close> on any other character.
\<close>

definition b64decode :: "string \<Rightarrow> exn + byte list" where
  "b64decode s =
     (if \<exists>c \<in> set s. (of_char c :: nat) \<ge> 128
      then Inl (ValueError ''string argument should contain only ASCII characters'')
      else a2b_base64 s 0 0 0 [])"

section \<open>Content Extractor: \<^verbatim>\<open>_extract_images_from_content\<close>\<close>

text \<open>
  A content part is a dictionary, a \<^verbatim>\<open>TextContent\<close> (fields \<^verbatim>\<open>type\<close>, \<^verbatim>\<open>text\<close>) or an
  \<^verbatim>\<open>ImageContent\<close> (fields \<^verbatim>\<open>type\<close>, \<^verbatim>\<open>image_url\<close>); the \<^verbatim>\<open>type\<close> field of either object
  is any string. A message's content is a string or a list of parts.
\<close>

datatype part =
    DictPart "(string \<times> json) list"
  | TextContent string string
  | ImageContent string "(string \<times> json) list"

datatype content = Text string | Parts "part list"

record MultimodalMessage =
  role :: string
  content :: content

text \<open>
  \<^verbatim>\<open>re.match(r"data:image/[^;]+;base64,(.+)", url)\<close>, returning group 1. The class
  \<^verbatim>\<open>[^;]+\<close> cannot cross a semicolon and a semicolon must follow it, so it ends at the
  first semicolon; \<^verbatim>\<open>.\<close> matches everything but a newline and the match is not
  anchored at the end, so the greedy group is the longest newline-free run.
\<close>

definition re_match_data_uri :: "string \<Rightarrow> string option" where
  "re_match_data_uri url =
     (if prefix ''data:image/'' url then
        (let rest = drop 11 url;
             subtype = takeWhile (\<lambda>c. c \<noteq> CHR '';'') rest;
             tail = dropWhile (\<lambda>c. c \<noteq> CHR '';'') rest
         in if subtype \<noteq> [] \<and> prefix '';base64,'' tail then
              (let payload = takeWhile (\<lambda>c. c \<noteq> CHR 0x0A) (drop 8 tail)
               in if payload \<noteq> [] then Some payload else None)
            else None)
      else None)"

text \<open>
  The body shared by both branches of the loop once \<open>url\<close> is bound:
  \<^verbatim>\<open>url.startswith("data:")\<close>, the match and the decoding. \<open>None\<close> means that no image
  is appended.
\<close>

definition image_of_url :: "json \<Rightarrow> exn + byte list option" where
  "image_of_url url = (case url of
       JStr u \<Rightarrow>
         (if prefix ''data:'' u then
            (case re_match_data_uri u of
               None \<Rightarrow> Inr None
             | Some payload \<Rightarrow>
                 (case b64decode payload of Inl e \<Rightarrow> Inl e | Inr img \<Rightarrow> Inr (Some img)))
          else Inr None)
     | _ \<Rightarrow> Inl (no_attribute (type_name url) ''startswith''))"

definition append_image :: "json list \<times> byte list list \<Rightarrow> json \<Rightarrow> exn + json list \<times> byte list list" where
  "append_image acc url = (case image_of_url url of
       Inl e \<Rightarrow> Inl e
     | Inr None \<Rightarrow> Inr acc
     | Inr (Some img) \<Rightarrow> Inr (fst acc, snd acc @ [img]))"

text \<open>One turn of the loop over the parts; the state is \<open>(text_parts, images)\<close>.\<close>

fun extract_item :: "json list \<times> byte list list \<Rightarrow> part \<Rightarrow> exn + json list \<times> byte list list" where
  "extract_item acc (DictPart item) =
     (if map_of item ''type'' = Some (JStr ''text'') then
        Inr (fst acc @ [dict_get item ''text'' (JStr [])], snd acc)
      else if map_of item ''type'' = Some (JStr ''image_url'') then
        (let image_url = dict_get item ''image_url'' (JObj [])
         in append_image acc
              (case image_url of JObj d \<Rightarrow> dict_get d ''url'' (JStr []) | _ \<Rightarrow> JStr []))
      else Inr acc)"
| "extract_item acc (TextContent ty txt) =
     (if ty = ''text'' then Inr (fst acc @ [JStr txt], snd acc)
      else if ty = ''image_url'' then Inl (no_attribute ''TextContent'' ''image_url'')
      else Inr acc)"
| "extract_item acc (ImageContent ty image_url) =
     (if ty = ''text'' then Inl (no_attribute ''ImageContent'' ''text'')
      else if ty = ''image_url'' then append_image acc (dict_get image_url ''url'' (JStr []))
      else Inr acc)"

fun extract_loop :: "json list \<times> byte list list \<Rightarrow> part list \<Rightarrow> exn + json list \<times> byte list list" where
  "extract_loop acc [] = Inr acc"
| "extract_loop acc (item # items) =
     (case extract_item acc item of Inl e \<Rightarrow> Inl e | Inr acc' \<Rightarrow> extract_loop acc' items)"

text \<open>\<^verbatim>\<open>" ".join(text_parts)\<close>: every item must be a string.\<close>

fun str_items :: "nat \<Rightarrow> json list \<Rightarrow> exn + string list" where
  "str_items i [] = Inr []"
| "str_items i (x # xs) = (case x of
       JStr s \<Rightarrow> (case str_items (Suc i) xs of Inl e \<Rightarrow> Inl e | Inr ss \<Rightarrow> Inr (s # ss))
     | _ \<Rightarrow> Inl (TypeError (''sequence item '' @ show_nat i @ '': expected str instance, ''
                             @ type_name x @ '' found'')))"

definition extract_images_from_content :: "content \<Rightarrow> exn + string \<times> byte list list" where
  "extract_images_from_content c = (case c of
       Text s \<Rightarrow> Inr (s, [])
     | Parts items \<Rightarrow>
         (case extract_loop ([], []) items of
            Inl e \<Rightarrow> Inl e
          | Inr (text_parts, images) \<Rightarrow>
              (case str_items 0 text_parts of
                 Inl e \<Rightarrow> Inl e
               | Inr ss \<Rightarrow> Inr (join '' '' ss, images))))"

section \<open>Message Normalizer: \<^verbatim>\<open>_prepare_messages_for_llm\<close>\<close>

definition image_part :: "byte list \<Rightarrow> json" where
  "image_part img_data =
     JObj [(''type'', JStr ''image_url''),
           (''image_url'', JObj [(''url'', JStr (''data:image/jpeg;base64,'' @ b64encode img_data))])]"

definition text_part :: "string \<Rightarrow> json" where
  "text_part text = JObj [(''type'', JStr ''text''), (''text'', JStr text)]"

definition prepare_message :: "MultimodalMessage \<Rightarrow> exn + json" where
  "prepare_message msg = (case extract_images_from_content (content msg) of
       Inl e \<Rightarrow> Inl e
     | Inr (text, images) \<Rightarrow>
         (if images \<noteq> [] then
            Inr (JObj [(''role'', JStr (role msg)),
                       (''content'', JArr (map image_part images
                                           @ (if text \<noteq> [] then [text_part text] else [])))])
          else Inr (JObj [(''role'', JStr (role msg)), (''content'', JStr text)])))"

fun prepare_messages_for_llm :: "MultimodalMessage list \<Rightarrow> exn + json list" where
  "prepare_messages_for_llm [] = Inr []"
| "prepare_messages_for_llm (msg # msgs) = (case prepare_message msg of
       Inl e \<Rightarrow> Inl e
     | Inr m \<Rightarrow> (case prepare_messages_for_llm msgs of Inl e \<Rightarrow> Inl e | Inr ms \<Rightarrow> Inr (m # ms)))"

section \<open>Streaming Response Emitter: \<^verbatim>\<open>_generate_stream\<close>\<close>

text \<open>
  \<^verbatim>\<open>str(e)\<close>. For an \<^verbatim>\<open>HTTPException\<close> it is the status code, a colon and the detail.
\<close>

definition str_exn :: "exn \<Rightarrow> string" where
  "str_exn e = (case e of
       TypeError m \<Rightarrow> m | AttributeError m \<Rightarrow> m | KeyError m \<Rightarrow> m | IndexError m \<Rightarrow> m
     | ValueError m \<Rightarrow> m | BinasciiError m \<Rightarrow> m | EngineFailure m \<Rightarrow> m
     | HTTPException code detail \<Rightarrow> show_nat code @ '': '' @ detail)"

text \<open>
  What the generators yield: \<^verbatim>\<open>f"data: {json.dumps(payload)}\n\n"\<close> for a payload,
  or the literal \<^verbatim>\<open>"data: [DONE]\n\n"\<close>. \<open>render\<close> gives the string on the wire.
\<close>

datatype frame = Data json | DoneMarker

definition sse :: "string \<Rightarrow> string" where
  "sse payload = ''data: '' @ payload @ [CHR 0x0A, CHR 0x0A]"

fun render :: "frame \<Rightarrow> string" where
  "render (Data payload) = sse (dumps payload)"
| "render DoneMarker = sse ''[DONE]''"

definition error_frame :: "string \<Rightarrow> frame" where
  "error_frame msg = Data (JObj [(''error'', JStr msg)])"

text \<open>
  \<^verbatim>\<open>str.isspace\<close> on the code points below 256, and \<^verbatim>\<open>str.split()\<close> without
  arguments: the maximal runs of characters that are not whitespace.
\<close>

definition is_space :: "char \<Rightarrow> bool" where
  "is_space c =
     (let n = (of_char c :: nat)
      in (9 \<le> n \<and> n \<le> 13) \<or> (28 \<le> n \<and> n \<le> 32) \<or> n = 133 \<or> n = 160)"

fun split_words :: "string \<Rightarrow> string \<Rightarrow> string list" where
  "split_words w [] = (if w = [] then [] else [w])"
| "split_words w (c # cs) =
     (if is_space c then (if w = [] then split_words [] cs else w # split_words [] cs)
      else split_words (w @ [c]) cs)"

definition py_split :: "string \<Rightarrow> string list" where
  "py_split s = split_words [] s"

text \<open>
  \<^verbatim>\<open>int(x)\<close> on a float truncates towards zero. Floats are read as real numbers: the
  clock readings are reals, and \<^verbatim>\<open>n * 1.3\<close> is the exact product \<open>n * 13 / 10\<close>. For
  the token counts the reading is justified against IEEE doubles in lemma
  \<open>double_token_counts\<close> below.
\<close>

definition py_int :: "real \<Rightarrow> int" where
  "py_int x = (if 0 \<le> x then \<lfloor>x\<rfloor> else \<lceil>x\<rceil>)"

text \<open>The four fixed readings of \<^verbatim>\<open>time.perf_counter()\<close> in one request.\<close>

record clock =
  request_start :: real
  wait_start :: real
  lock_acquired :: real
  generation_done :: real

text \<open>
  What the engine's streaming call gives when it returns: the chunks of the iterator, each
  with the reading that \<^verbatim>\<open>time.perf_counter()\<close> gives while the chunk is handled, and
  the exception that ends the iteration, if one does.
\<close>

record engine_stream =
  chunks :: "(json \<times> real) list"
  failure :: "exn option"

text \<open>
  The two tests on a chunk. The result is the value of \<^verbatim>\<open>delta["content"]\<close> when the
  chunk has a first choice whose delta has the key, \<open>None\<close> when the chunk is passed over.
\<close>

definition chunk_content :: "json \<Rightarrow> exn + json option" where
  "chunk_content chunk =
     (case py_in ''choices'' chunk of
        Inl e \<Rightarrow> Inl e
      | Inr False \<Rightarrow> Inr None
      | Inr True \<Rightarrow>
          (case py_getitem chunk ''choices'' of
             Inl e \<Rightarrow> Inl e
           | Inr choices \<Rightarrow>
               (case py_len choices of
                  Inl e \<Rightarrow> Inl e
                | Inr n \<Rightarrow>
                    (if n > 0 then
                       (case py_first choices of
                          Inl e \<Rightarrow> Inl e
                        | Inr choice \<Rightarrow>
                            (case py_get choice ''delta'' (JObj []) of
                               Inl e \<Rightarrow> Inl e
                             | Inr delta \<Rightarrow>
                                 (case py_in ''content'' delta of
                                    Inl e \<Rightarrow> Inl e
                                  | Inr False \<Rightarrow> Inr None
                                  | Inr True \<Rightarrow>
                                      (case py_getitem delta ''content'' of
                                         Inl e \<Rightarrow> Inl e
                                       | Inr c \<Rightarrow> Inr (Some c)))))
                     else Inr None))))"

text \<open>
  The loop over the engine's chunks. It returns the frames yielded and either the exception
  that stopped it or the final \<open>(generated_text, first_token_time)\<close>. The exception
  \<open>fail\<close>, if any, is the one the iterator raises after its last chunk.
\<close>

fun stream_loop ::
  "(json \<times> real) list \<Rightarrow> exn option \<Rightarrow> string \<Rightarrow> real option
     \<Rightarrow> frame list \<times> (exn + string \<times> real option)" where
  "stream_loop [] fail generated_text first_token_time =
     ([], case fail of None \<Rightarrow> Inr (generated_text, first_token_time) | Some e \<Rightarrow> Inl e)"
| "stream_loop ((chunk, now) # rest) fail generated_text first_token_time =
     (case chunk_content chunk of
        Inl e \<Rightarrow> ([], Inl e)
      | Inr None \<Rightarrow> stream_loop rest fail generated_text first_token_time
      | Inr (Some c) \<Rightarrow>
          (case c of
             JStr s \<Rightarrow>
               (let r = stream_loop rest fail (generated_text @ s)
                          (if first_token_time = None \<and> s \<noteq> [] then Some now
                           else first_token_time)
                in (Data chunk # fst r, snd r))
           | _ \<Rightarrow> ([], Inl (TypeError (''can only concatenate str (not '' @ [CHR 0x22]
                                        @ type_name c @ [CHR 0x22] @ '') to str'')))))"

definition usage_chunk :: "bool \<Rightarrow> clock \<Rightarrow> string \<Rightarrow> real option \<Rightarrow> json" where
  "usage_chunk include_perf clk generated_text first_token_time =
     (let completion_tokens = real (length (py_split generated_text)) * (13 / 10);
          prompt_tokens = (100 :: real);
          total_tokens = py_int (prompt_tokens + completion_tokens);
          base =
            [(''choices'', JArr [JObj [(''delta'', JObj []), (''finish_reason'', JStr ''stop'')]]),
             (''usage'', JObj [(''prompt_tokens'', JInt (py_int prompt_tokens)),
                               (''completion_tokens'', JInt (py_int completion_tokens)),
                               (''total_tokens'', JInt total_tokens)])]
      in if include_perf then
           (let queue_ms = py_int ((lock_acquired clk - wait_start clk) * 1000);
                generation_ms = py_int ((generation_done clk - lock_acquired clk) * 1000);
                ttft_ms = (case first_token_time of
                             None \<Rightarrow> JNull
                           | Some t \<Rightarrow> if t \<noteq> 0
                                       then JInt (py_int ((t - request_start clk) * 1000))
                                       else JNull)
            in JObj (base @ [(''perf'', JObj [(''queue_ms'', JInt queue_ms),
                                              (''ttft_ms'', ttft_ms),
                                              (''generation_ms'', JInt generation_ms)])]))
         else JObj base)"

text \<open>
  The generator, as the list of frames it yields. \<open>created\<close> is the outcome of the call
  \<^verbatim>\<open>llm.create_chat_completion(..., stream=True)\<close>; every \<^verbatim>\<open>Exception\<close> inside the
  \<^verbatim>\<open>try\<close> becomes one error frame after the frames already yielded.
\<close>

definition generate_frames :: "bool \<Rightarrow> clock \<Rightarrow> exn + engine_stream \<Rightarrow> frame list" where
  "generate_frames include_perf clk created =
     (case created of
        Inl e \<Rightarrow> [error_frame (str_exn e)]
      | Inr response \<Rightarrow>
          (let r = stream_loop (chunks response) (failure response) [] None
           in case snd r of
                Inl e \<Rightarrow> fst r @ [error_frame (str_exn e)]
              | Inr (generated_text, first_token_time) \<Rightarrow>
                  fst r @ [Data (usage_chunk include_perf clk generated_text first_token_time),
                           DoneMarker]))"

definition generate_stream :: "bool \<Rightarrow> clock \<Rightarrow> exn + engine_stream \<Rightarrow> string list" where
  "generate_stream include_perf clk created =
     map render (generate_frames include_perf clk created)"

section \<open>Chat Gateway: \<^verbatim>\<open>chat_completions\<close>\<close>

record MultimodalGenerateRequest =
  prompt :: "string option"
  messages :: "MultimodalMessage list option"
  max_tokens :: int
  temperature :: real
  top_p :: real
  min_p :: real
  stream :: bool
  include_perf :: bool

text \<open>
  The engine: the streaming and the plain call of \<^verbatim>\<open>create_chat_completion\<close>, each a
  function of the messages and of \<open>(max_tokens, temperature, top_p, min_p)\<close>.
\<close>

record engine =
  create_stream :: "json list \<Rightarrow> int \<times> real \<times> real \<times> real \<Rightarrow> exn + engine_stream"
  create_full :: "json list \<Rightarrow> int \<times> real \<times> real \<times> real \<Rightarrow> exn + json"

record server =
  llm :: "engine option"
  always_include_perf :: bool
  openai_model_id :: string

datatype response =
    HTTPError nat string
  | StreamingResponse "string list"
  | JSONResponse json

text \<open>The \<^verbatim>\<open>if\<close>/\<^verbatim>\<open>elif\<close>/\<^verbatim>\<open>else\<close> that binds \<^verbatim>\<open>messages\<close>; an empty list or string is false.\<close>

definition select_messages :: "MultimodalGenerateRequest \<Rightarrow> exn + json list" where
  "select_messages request =
     (case messages request of
        Some (m # ms) \<Rightarrow> prepare_messages_for_llm (m # ms)
      | _ \<Rightarrow>
          (case prompt request of
             Some (c # cs) \<Rightarrow> Inr [JObj [(''role'', JStr ''user''), (''content'', JStr (c # cs))]]
           | _ \<Rightarrow> Inl (HTTPException 400 ''Either messages or prompt required'')))"

text \<open>The body of the \<^verbatim>\<open>try\<close> block.\<close>

definition chat_body ::
  "server \<Rightarrow> engine \<Rightarrow> clock \<Rightarrow> MultimodalGenerateRequest \<Rightarrow> exn + response" where
  "chat_body srv eng clk request =
     (let perf = (include_perf request \<or> always_include_perf srv);
          params = (max_tokens request, temperature request, top_p request, min_p request)
      in case select_messages request of
           Inl e \<Rightarrow> Inl e
         | Inr msgs \<Rightarrow>
             (if stream request then
                Inr (StreamingResponse (generate_stream perf clk (create_stream eng msgs params)))
              else
                (case create_full eng msgs params of
                   Inl e \<Rightarrow> Inl e
                 | Inr response \<Rightarrow>
                     (case py_getitem response ''choices'' of
                        Inl e \<Rightarrow> Inl e
                      | Inr choices \<Rightarrow>
                          (case py_get response ''usage'' (JObj []) of
                             Inl e \<Rightarrow> Inl e
                           | Inr usage \<Rightarrow>
                               Inr (JSONResponse (JObj
                                 [(''id'', JStr (''chatcmpl-'' @ openai_model_id srv)),
                                  (''object'', JStr ''chat.completion''),
                                  (''model'', JStr (openai_model_id srv)),
                                  (''choices'', choices),
                                  (''usage'', usage)])))))))"

text \<open>
  The handler: 503 while the model is not loaded, and every \<^verbatim>\<open>Exception\<close> of the body,
  the \<^verbatim>\<open>HTTPException\<close> of \<open>select_messages\<close> included, is re-raised with status 500.
\<close>

definition chat_completions :: "server \<Rightarrow> clock \<Rightarrow> MultimodalGenerateRequest \<Rightarrow> response" where
  "chat_completions srv clk request =
     (case llm srv of
        None \<Rightarrow> HTTPError 503 ''Model not loaded''
      | Some eng \<Rightarrow>
          (case chat_body srv eng clk request of
             Inl e \<Rightarrow> HTTPError 500 (str_exn e)
           | Inr resp \<Rightarrow> resp))"

section \<open>Edge Proxy: \<^verbatim>\<open>stream_response\<close>\<close>







section \<open>Reading requests and responses\<close>

text \<open>
  The text fragment of an engine chunk: the string under \<^verbatim>\<open>content\<close> in the delta of the
  first choice, \<open>None\<close> when the chunk has no such field.
\<close>

definition delta_text :: "json \<Rightarrow> string option" where
  "delta_text chunk = (case chunk of
       JObj d \<Rightarrow> (case map_of d ''choices'' of
           Some (JArr (JObj choice # _)) \<Rightarrow> (case map_of choice ''delta'' of
               Some (JObj delta) \<Rightarrow> (case map_of delta ''content'' of
                   Some (JStr s) \<Rightarrow> Some s
                 | _ \<Rightarrow> None)
             | _ \<Rightarrow> None)
         | _ \<Rightarrow> None)
     | _ \<Rightarrow> None)"

text \<open>
  The shape of a chunk of the engine's stream: a dictionary; \<^verbatim>\<open>choices\<close>, when present,
  is a list of dictionaries; the delta of the first choice, when present, is a dictionary;
  its \<^verbatim>\<open>content\<close>, when present, is a string.
\<close>

definition engine_chunk :: "json \<Rightarrow> bool" where
  "engine_chunk chunk = (case chunk of
       JObj d \<Rightarrow> (case map_of d ''choices'' of
           None \<Rightarrow> True
         | Some (JArr []) \<Rightarrow> True
         | Some (JArr (JObj choice # _)) \<Rightarrow> (case map_of choice ''delta'' of
               None \<Rightarrow> True
             | Some (JObj delta) \<Rightarrow> (case map_of delta ''content'' of
                   None \<Rightarrow> True
                 | Some (JStr _) \<Rightarrow> True
                 | _ \<Rightarrow> False)
             | _ \<Rightarrow> False)
         | _ \<Rightarrow> False)
     | _ \<Rightarrow> False)"

definition emitted_text :: "(json \<times> real) list \<Rightarrow> string" where
  "emitted_text cs = concat (map (\<lambda>c. case delta_text (fst c) of None \<Rightarrow> [] | Some s \<Rightarrow> s) cs)"

text \<open>The clock reading at the first chunk with a non-empty text fragment.\<close>

definition first_token :: "(json \<times> real) list \<Rightarrow> real option" where
  "first_token cs =
     (case filter (\<lambda>c. case delta_text (fst c) of None \<Rightarrow> False | Some s \<Rightarrow> s \<noteq> []) cs of
        [] \<Rightarrow> None
      | c # _ \<Rightarrow> Some (snd c))"

text \<open>The first-token reading after more chunks, given the one held so far.\<close>

definition seen_first :: "real option \<Rightarrow> (json \<times> real) list \<Rightarrow> real option" where
  "seen_first ftt cs = (case ftt of None \<Rightarrow> first_token cs | Some t \<Rightarrow> Some t)"

definition content_frames :: "(json \<times> real) list \<Rightarrow> frame list" where
  "content_frames cs = map (\<lambda>c. Data (fst c)) (filter (\<lambda>c. delta_text (fst c) \<noteq> None) cs)"

text \<open>Members of a usage chunk.\<close>

definition json_member :: "string \<Rightarrow> json \<Rightarrow> json option" where
  "json_member k j = (case j of JObj d \<Rightarrow> map_of d k | _ \<Rightarrow> None)"




fun payload :: "frame \<Rightarrow> string" where
  "payload (Data j) = dumps j"
| "payload DoneMarker = ''[DONE]''"

text \<open>
  IEEE doubles, for the token arithmetic: a double is \<open>m * 2 ^ e\<close> with a significand below
  \<open>2 ^ 53\<close>; an operation returns a double nearest to the exact result; the literal
  \<^verbatim>\<open>1.3\<close> is the double \<open>5854679515581645 / 2 ^ 52\<close>.
\<close>

definition is_double :: "real \<Rightarrow> bool" where
  "is_double r = (\<exists>m e :: int. \<bar>m\<bar> < 2 ^ 53 \<and> - 1074 \<le> e \<and> e \<le> 971
                     \<and> r = real_of_int m * 2 powr real_of_int e)"

definition nearest_double :: "real \<Rightarrow> real \<Rightarrow> bool" where
  "nearest_double x r = (is_double r \<and> (\<forall>d. is_double d \<longrightarrow> \<bar>r - x\<bar> \<le> \<bar>d - x\<bar>))"

definition double_13_10 :: real where
  "double_13_10 = 5854679515581645 / 2 ^ 52"

section \<open>Sample inputs\<close>

definition content_chunk :: "string \<Rightarrow> json" where
  "content_chunk s =
     JObj [(''id'', JStr ''chatcmpl-1''),
           (''choices'', JArr [JObj [(''index'', JInt 0),
                                     (''delta'', JObj [(''content'', JStr s)]),
                                     (''finish_reason'', JNull)]])]"

definition stop_chunk :: json where
  "stop_chunk =
     JObj [(''id'', JStr ''chatcmpl-1''),
           (''choices'', JArr [JObj [(''index'', JInt 0),
                                     (''delta'', JObj []),
                                     (''finish_reason'', JStr ''stop'')]])]"

definition echo_engine :: engine where
  "echo_engine =
     \<lparr>create_stream = (\<lambda>msgs params. Inr \<lparr>chunks = [], failure = None\<rparr>),
      create_full = (\<lambda>msgs params. Inr (JObj [(''choices'', JArr msgs)]))\<rparr>"

definition loaded_server :: server where
  "loaded_server = \<lparr>llm = Some echo_engine, always_include_perf = False, openai_model_id = ''m''\<rparr>"

definition clock0 :: clock where
  "clock0 = \<lparr>request_start = 1, wait_start = 1, lock_acquired = 6, generation_done = 7\<rparr>"

definition plain_request :: MultimodalGenerateRequest where
  "plain_request =
     \<lparr>prompt = None, messages = None, max_tokens = 2048, temperature = 1,
      top_p = 19 / 20, min_p = 0, stream = False, include_perf = False\<rparr>"

definition image_message :: "string \<Rightarrow> MultimodalMessage" where
  "image_message url =
     \<lparr>role = ''user'',
      content = Parts [DictPart [(''type'', JStr ''image_url''),
                                 (''image_url'', JObj [(''url'', JStr url)])]]\<rparr>"


definition hello_world :: engine_stream where
  "hello_world =
     \<lparr>chunks = [(content_chunk ''Hello'', 13 / 2), (content_chunk '' world'', 27 / 4),
                (stop_chunk, 27 / 4)],
      failure = None\<rparr>"







section \<open>Properties\<close>

subsection \<open>The two tests on a chunk\<close>

lemma delta_text_SomeD:
  assumes "delta_text c = Some s"
  shows "\<exists>d choice rest delta. c = JObj d \<and> map_of d ''choices'' = Some (JArr (JObj choice # rest))
           \<and> map_of choice ''delta'' = Some (JObj delta) \<and> map_of delta ''content'' = Some (JStr s)"
proof (cases c)
  case (JObj d)
  show ?thesis
  proof (cases "map_of d ''choices''")
    case None
    with JObj assms show ?thesis by (simp add: delta_text_def)
  next
    case (Some v)
    from JObj Some assms obtain choice rest where v: "v = JArr (JObj choice # rest)"
      by (auto simp: delta_text_def split: json.splits list.splits)
    from JObj Some v assms obtain delta where dl: "map_of choice ''delta'' = Some (JObj delta)"
      by (auto simp: delta_text_def split: json.splits option.splits)
    from JObj Some v dl assms have "map_of delta ''content'' = Some (JStr s)"
      by (auto simp: delta_text_def split: json.splits option.splits)
    with JObj Some v dl show ?thesis by simp
  qed
qed (use assms in \<open>simp_all add: delta_text_def\<close>)

lemma chunk_content_of_shape:
  assumes "map_of d ''choices'' = Some (JArr (JObj choice # rest))"
    and "map_of choice ''delta'' = Some (JObj delta)"
  shows "chunk_content (JObj d) = Inr (map_of delta ''content'')"
  using assms
  by (cases "map_of delta ''content''")
     (simp_all add: chunk_content_def py_in_def py_getitem_def py_len_def py_first_def
        py_get_def dict_get_def)

lemma delta_text_chunk_content:
  assumes "delta_text c = Some s"
  shows "chunk_content c = Inr (Some (JStr s))"
proof -
  from delta_text_SomeD [OF assms] obtain d choice rest delta where
    "c = JObj d" "map_of d ''choices'' = Some (JArr (JObj choice # rest))"
    "map_of choice ''delta'' = Some (JObj delta)" "map_of delta ''content'' = Some (JStr s)"
    by blast
  then show ?thesis by (simp add: chunk_content_of_shape)
qed

lemma py_getitem_InrD:
  "py_getitem x k = Inr v \<Longrightarrow> \<exists>d. x = JObj d \<and> map_of d k = Some v"
  by (cases x) (auto simp: py_getitem_def split: option.splits)

lemma py_get_InrD:
  "py_get x k dflt = Inr v \<Longrightarrow> \<exists>d. x = JObj d \<and> v = dict_get d k dflt"
  by (cases x) (auto simp: py_get_def)

lemma py_first_InrD:
  "py_first x = Inr (JObj ch) \<Longrightarrow> \<exists>rest. x = JArr (JObj ch # rest)"
  by (cases x) (auto simp: py_first_def split: list.splits)

lemma chunk_content_SomeD:
  assumes "chunk_content c = Inr (Some v)"
  shows "\<exists>choices choice delta. py_getitem c ''choices'' = Inr choices
           \<and> py_first choices = Inr choice
           \<and> py_get choice ''delta'' (JObj []) = Inr delta
           \<and> py_getitem delta ''content'' = Inr v"
  using assms unfolding chunk_content_def
  by (simp split: sum.splits bool.splits if_splits)

lemma chunk_content_text:
  assumes "chunk_content c = Inr (Some (JStr s))"
  shows "delta_text c = Some s"
proof -
  from chunk_content_SomeD [OF assms] obtain choices choice delta where
    a: "py_getitem c ''choices'' = Inr choices" and b: "py_first choices = Inr choice"
    and g: "py_get choice ''delta'' (JObj []) = Inr delta"
    and h: "py_getitem delta ''content'' = Inr (JStr s)"
    by blast
  from a obtain d where d: "c = JObj d" "map_of d ''choices'' = Some choices"
    by (auto dest: py_getitem_InrD)
  from g obtain ch where ch: "choice = JObj ch" "delta = dict_get ch ''delta'' (JObj [])"
    by (auto dest: py_get_InrD)
  from b ch obtain rest where rest: "choices = JArr (JObj ch # rest)"
    by (auto dest: py_first_InrD)
  from h obtain dl where dl: "delta = JObj dl" "map_of dl ''content'' = Some (JStr s)"
    by (auto dest: py_getitem_InrD)
  from ch(2) dl have "map_of ch ''delta'' = Some (JObj dl)"
    by (cases "map_of ch ''delta''") (auto simp: dict_get_def)
  with d rest dl show ?thesis by (simp add: delta_text_def)
qed

lemma chunk_content_none:
  assumes "chunk_content c = Inr None"
  shows "delta_text c = None"
proof (cases "delta_text c")
  case (Some s)
  from delta_text_chunk_content [OF Some] assms show ?thesis by simp
qed simp

lemma chunk_content_engine:
  assumes "engine_chunk c"
  shows "chunk_content c = Inr (map_option JStr (delta_text c))"
proof (cases "delta_text c")
  case (Some s)
  then show ?thesis by (simp add: delta_text_chunk_content)
next
  case None
  from assms obtain d where d: "c = JObj d"
    by (cases c) (simp_all add: engine_chunk_def)
  have "chunk_content c = Inr None"
  proof (cases "map_of d ''choices''")
    case N: None
    then show ?thesis by (simp add: d chunk_content_def py_in_def)
  next
    case (Some v)
    from assms d Some consider "v = JArr []" | choice rest where "v = JArr (JObj choice # rest)"
      by (cases v; simp add: engine_chunk_def split: list.splits json.splits) 
    then show ?thesis
    proof cases
      case 1
      with Some show ?thesis
        by (simp add: d chunk_content_def py_in_def py_getitem_def py_len_def)
    next
      case 2
      show ?thesis
      proof (cases "map_of choice ''delta''")
        case N: None
        with Some 2 show ?thesis
          by (simp add: d chunk_content_def py_in_def py_getitem_def py_len_def py_first_def
              py_get_def dict_get_def)
      next
        case S: (Some dv)
        from assms d Some 2 S obtain delta where dv: "dv = JObj delta"
          by (cases dv) (simp_all add: engine_chunk_def)
        from None d Some 2 S dv have "map_of delta ''content'' = None \<or> (\<exists>w. map_of delta ''content'' = Some w \<and> (\<forall>s. w \<noteq> JStr s))"
          by (cases "map_of delta ''content''") (auto simp: delta_text_def split: json.splits)
        moreover from assms d Some 2 S dv have "map_of delta ''content'' = None \<or> (\<exists>s. map_of delta ''content'' = Some (JStr s))"
          by (cases "map_of delta ''content''") (auto simp: engine_chunk_def split: json.splits)
        ultimately have "map_of delta ''content'' = None" by auto
        with chunk_content_of_shape [of d choice rest delta] Some 2 S dv d show ?thesis by simp
      qed
    qed
  qed
  with None show ?thesis by simp
qed

subsection \<open>Request validation\<close>

lemma str_exn_400: "str_exn (HTTPException 400 d) = ''400: '' @ d"
  by (simp add: str_exn_def show_nat.simps digit_char_def)

text \<open>
  C3. The claim: a request with neither \<^verbatim>\<open>messages\<close> nor \<^verbatim>\<open>prompt\<close> is rejected with
  status 400. The handler raises \<^verbatim>\<open>HTTPException(400)\<close> inside its own \<^verbatim>\<open>try\<close>, whose
  \<^verbatim>\<open>except Exception\<close> re-raises it as status 500: with the model loaded, every request
  whose \<^verbatim>\<open>messages\<close> and \<^verbatim>\<open>prompt\<close> are both absent or empty is answered with 500 and
  the detail \<^verbatim>\<open>400: Either messages or prompt required\<close>.
\<close>

theorem chat_completions_neither_500:
  assumes "llm srv = Some eng"
    and "messages request = None \<or> messages request = Some []"
    and "prompt request = None \<or> prompt request = Some []"
  shows "chat_completions srv clk request
           = HTTPError 500 ''400: Either messages or prompt required''"
proof -
  from assms(2,3) have "select_messages request
      = Inl (HTTPException 400 ''Either messages or prompt required'')"
    by (auto simp: select_messages_def)
  then show ?thesis
    using assms(1) by (simp add: chat_completions_def chat_body_def Let_def str_exn_400)
qed

theorem chat_completions_neither_500_witness:
  "llm loaded_server = Some echo_engine
   \<and> chat_completions loaded_server clock0 plain_request
       = HTTPError 500 ''400: Either messages or prompt required''"
proof -
  have a: "llm loaded_server = Some echo_engine" by (simp add: loaded_server_def)
  have b: "messages plain_request = None \<or> messages plain_request = Some []"
    by (simp add: plain_request_def)
  have c: "prompt plain_request = None \<or> prompt plain_request = Some []"
    by (simp add: plain_request_def)
  show ?thesis using a chat_completions_neither_500 [OF a b c] by simp
qed




subsection \<open>The loop over the chunks\<close>

lemma content_frames_Cons:
  "content_frames (c # cs)
     = (if delta_text (fst c) = None then content_frames cs else Data (fst c) # content_frames cs)"
  by (simp add: content_frames_def)

lemma emitted_text_Cons:
  "emitted_text (c # cs)
     = (case delta_text (fst c) of None \<Rightarrow> [] | Some s \<Rightarrow> s) @ emitted_text cs"
  by (simp add: emitted_text_def)

lemma first_token_Cons:
  "first_token (c # cs)
     = (case delta_text (fst c) of
          None \<Rightarrow> first_token cs
        | Some s \<Rightarrow> if s \<noteq> [] then Some (snd c) else first_token cs)"
  by (simp add: first_token_def split: option.splits)

lemma stream_loop_skip:
  "chunk_content (fst c) = Inr None \<Longrightarrow> stream_loop (c # cs) fail gt ftt = stream_loop cs fail gt ftt"
  by (cases c) simp

lemma stream_loop_text:
  "chunk_content (fst c) = Inr (Some (JStr s)) \<Longrightarrow>
   stream_loop (c # cs) fail gt ftt =
     (Data (fst c) # fst (stream_loop cs fail (gt @ s) (if ftt = None \<and> s \<noteq> [] then Some (snd c) else ftt)),
      snd (stream_loop cs fail (gt @ s) (if ftt = None \<and> s \<noteq> [] then Some (snd c) else ftt)))"
  by (cases c) (simp add: Let_def)

lemma stream_loop_raise:
  "chunk_content (fst c) = Inl e \<Longrightarrow> stream_loop (c # cs) fail gt ftt = ([], Inl e)"
  by (cases c) simp

lemma stream_loop_type_error:
  "chunk_content (fst c) = Inr (Some v) \<Longrightarrow> \<forall>s. v \<noteq> JStr s \<Longrightarrow>
   \<exists>e. stream_loop (c # cs) fail gt ftt = ([], Inl e)"
  by (cases c; cases v) simp_all

lemma stream_loop_success:
  "stream_loop cs fail gt ftt = (frames, Inr (gt', ftt')) \<Longrightarrow>
   fail = None \<and> frames = content_frames cs \<and> gt' = gt @ emitted_text cs
   \<and> ftt' = seen_first ftt cs"
proof (induction cs arbitrary: gt ftt frames)
  case Nil
  then show ?case
    by (auto simp: content_frames_def emitted_text_def first_token_def seen_first_def
        split: option.splits)
next
  case (Cons c cs)
  show ?case
  proof (cases "chunk_content (fst c)")
    case (Inl e)
    with Cons.prems show ?thesis by (simp add: stream_loop_raise)
  next
    case (Inr r)
    show ?thesis
    proof (cases r)
      case None
      with Inr have skip: "chunk_content (fst c) = Inr None" by simp
      from chunk_content_none [OF skip] have dt: "delta_text (fst c) = None" .
      from Cons.prems have "stream_loop cs fail gt ftt = (frames, Inr (gt', ftt'))"
        by (simp add: stream_loop_skip [OF skip])
      from Cons.IH [OF this] show ?thesis
        by (simp add: content_frames_Cons emitted_text_Cons first_token_Cons dt seen_first_def
            split: option.splits)
    next
      case (Some v)
      show ?thesis
      proof (cases "\<exists>s. v = JStr s")
        case False
        with Inr Some stream_loop_type_error [of c v cs fail gt ftt] Cons.prems
        show ?thesis by auto
      next
        case True
        then obtain s where v: "v = JStr s" by blast
        with Inr Some have ct: "chunk_content (fst c) = Inr (Some (JStr s))" by simp
        from chunk_content_text [OF ct] have dt: "delta_text (fst c) = Some s" .
        let ?ftt = "if ftt = None \<and> s \<noteq> [] then Some (snd c) else ftt"
        obtain fs where fs: "stream_loop cs fail (gt @ s) ?ftt = (fs, Inr (gt', ftt'))"
          and frames: "frames = Data (fst c) # fs"
          using Cons.prems unfolding stream_loop_text [OF ct]
          by (cases "stream_loop cs fail (gt @ s) ?ftt") auto
        from Cons.IH [OF fs] frames show ?thesis
          by (auto simp: content_frames_Cons emitted_text_Cons first_token_Cons dt seen_first_def
              split: option.splits)
      qed
    qed
  qed
qed

lemma stream_loop_engine:
  "\<forall>c \<in> set cs. engine_chunk (fst c) \<Longrightarrow>
   stream_loop cs None gt ftt
     = (content_frames cs, Inr (gt @ emitted_text cs, seen_first ftt cs))"
proof (induction cs arbitrary: gt ftt)
  case Nil
  then show ?case
    by (simp add: content_frames_def emitted_text_def first_token_def seen_first_def
        split: option.splits)
next
  case (Cons c cs)
  then have ec: "engine_chunk (fst c)" and rest: "\<forall>c \<in> set cs. engine_chunk (fst c)" by simp_all
  note cc = chunk_content_engine [OF ec]
  show ?case
  proof (cases "delta_text (fst c)")
    case None
    with cc have "chunk_content (fst c) = Inr None" by simp
    then show ?thesis
      using Cons.IH [OF rest, of gt ftt] None
      by (simp add: stream_loop_skip content_frames_Cons emitted_text_Cons first_token_Cons
          seen_first_def split: option.splits)
  next
    case (Some s)
    with cc have "chunk_content (fst c) = Inr (Some (JStr s))" by simp
    then show ?thesis
      using Cons.IH [OF rest] Some
      by (auto simp: stream_loop_text content_frames_Cons emitted_text_Cons first_token_Cons
          seen_first_def split: option.splits)
  qed
qed

subsection \<open>The frames of a stream\<close>

lemma generate_frames_complete:
  assumes "generate_frames perf clk created = fs @ [Data u, DoneMarker]"
  shows "\<exists>es. created = Inr es \<and> failure es = None \<and> fs = content_frames (chunks es)
           \<and> u = usage_chunk perf clk (emitted_text (chunks es)) (first_token (chunks es))"
proof (cases created)
  case (Inl e)
  with assms show ?thesis by (simp add: generate_frames_def error_frame_def)
next
  case (Inr es)
  obtain frames r where loop: "stream_loop (chunks es) (failure es) [] None = (frames, r)"
    by (cases "stream_loop (chunks es) (failure es) [] None") auto
  show ?thesis
  proof (cases r)
    case (Inl e)
    with assms Inr loop show ?thesis by (simp add: generate_frames_def error_frame_def)
  next
    case R: (Inr p)
    obtain gt ftt where p: "p = (gt, ftt)" by (cases p) auto
    from loop R p have "stream_loop (chunks es) (failure es) [] None = (frames, Inr (gt, ftt))"
      by simp
    from stream_loop_success [OF this]
    have f: "failure es = None" "frames = content_frames (chunks es)"
      "gt = emitted_text (chunks es)" "ftt = first_token (chunks es)"
      by (simp_all add: seen_first_def)
    from assms Inr loop R p
    have "frames @ [Data (usage_chunk perf clk gt ftt), DoneMarker] = fs @ [Data u, DoneMarker]"
      by (simp add: generate_frames_def)
    then have "frames = fs" "u = usage_chunk perf clk gt ftt" by simp_all
    with f Inr show ?thesis by simp
  qed
qed

lemma generate_frames_engine:
  assumes "\<forall>c \<in> set cs. engine_chunk (fst c)"
  shows "generate_frames perf clk (Inr \<lparr>chunks = cs, failure = None\<rparr>)
           = content_frames cs
             @ [Data (usage_chunk perf clk (emitted_text cs) (first_token cs)), DoneMarker]"
  using stream_loop_engine [OF assms, of "[]" None]
  by (simp add: generate_frames_def seen_first_def)

lemma floor_13_10: "\<lfloor>real n * 13 / 10\<rfloor> = (13 * int n) div 10"
proof -
  have "real n * 13 / 10 = real_of_int (13 * int n) / real_of_int 10" by simp
  then show ?thesis by (simp only: floor_divide_of_int_eq)
qed

lemma py_int_nonneg: "0 \<le> x \<Longrightarrow> py_int x = \<lfloor>x\<rfloor>"
  by (simp add: py_int_def)


lemma usage_member:
  "json_member ''usage'' (usage_chunk perf clk gt ftt)
     = Some (JObj [(''prompt_tokens'', JInt 100),
                   (''completion_tokens'', JInt (13 * int (length (py_split gt)) div 10)),
                   (''total_tokens'', JInt (100 + 13 * int (length (py_split gt)) div 10))])"
proof -
  let ?n = "length (py_split gt)"
  have a: "py_int (real ?n * 13 / 10) = 13 * int ?n div 10"
    by (simp add: py_int_nonneg floor_13_10)
  have "py_int (100 + real ?n * 13 / 10) = \<lfloor>real ?n * 13 / 10 + real_of_int 100\<rfloor>"
    by (simp add: py_int_nonneg add.commute)
  also have "\<dots> = \<lfloor>real ?n * 13 / 10\<rfloor> + 100"
    by (rule floor_add_int [symmetric])
  finally have b: "py_int (100 + real ?n * 13 / 10) = 100 + 13 * int ?n div 10"
    by (simp add: floor_13_10)
  have c: "py_int 100 = 100" by (simp add: py_int_def)
  show ?thesis
    by (simp add: usage_chunk_def json_member_def Let_def a b c)
qed

subsection \<open>The token arithmetic in doubles\<close>

text \<open>
  Reading \<^verbatim>\<open>n * 1.3\<close> and \<^verbatim>\<open>100 + n * 1.3\<close> as exact products and sums loses nothing:
  for every word count below \<open>2 ^ 31\<close>, whatever nearest doubles the two operations
  return, \<^verbatim>\<open>int\<close> of them is \<^verbatim>\<open>int\<close> of the exact values, and nearest doubles exist.
\<close>

lemma is_double_int: "\<bar>k\<bar> < 2 ^ 53 \<Longrightarrow> is_double (real_of_int k)"
  unfolding is_double_def by (rule exI [of _ k], rule exI [of _ 0]) simp

lemma is_double_grid:
  assumes "\<bar>m\<bar> < 2 ^ 53"
  shows "is_double (real_of_int m / 1048576)"
proof -
  have "(2::real) powr real_of_int (- 20) = 1 / 1048576"
    by (simp add: powr_minus_divide)
  then have "real_of_int m / 1048576 = real_of_int m * 2 powr real_of_int (- 20)" by simp
  with assms show ?thesis
    unfolding is_double_def by (intro exI [of _ m] exI [of _ "- 20"]) simp
qed

lemma nearest_ge:
  assumes "nearest_double x r" "is_double d" "d \<le> x"
  shows "d \<le> r"
proof (rule ccontr)
  assume "\<not> d \<le> r"
  with assms(3) have "\<bar>d - x\<bar> < \<bar>r - x\<bar>" by simp
  moreover from assms(1,2) have "\<bar>r - x\<bar> \<le> \<bar>d - x\<bar>" by (simp add: nearest_double_def)
  ultimately show False by simp
qed

lemma nearest_le:
  assumes "nearest_double x r" "is_double d" "x \<le> d"
  shows "r \<le> d"
proof (rule ccontr)
  assume "\<not> r \<le> d"
  with assms(3) have "\<bar>d - x\<bar> < \<bar>r - x\<bar>" by simp
  moreover from assms(1,2) have "\<bar>r - x\<bar> \<le> \<bar>d - x\<bar>" by (simp add: nearest_double_def)
  ultimately show False by simp
qed

lemma double_token_counts:
  fixes n :: nat
  assumes n: "n < 2 ^ 31"
    and r: "nearest_double (real n * double_13_10) r"
    and t: "nearest_double (100 + r) t"
  shows "py_int r = py_int (real n * (13 / 10))"
    and "py_int t = py_int (100 + real n * (13 / 10))"
proof -
  define x where "x = real n * double_13_10"
  define k where "k = 13 * int n div 10"
  define c where "c = \<lceil>x * 1048576\<rceil>"
  define d where "d = real_of_int c / 1048576"
  from n have ni: "int n < 2147483648" by simp
  then have nr: "real n < 2147483648" by linarith
  have x_eq: "x = real n * 13 / 10 + real n / 22517998136852480"
    by (simp add: x_def double_13_10_def field_simps)
  have fl: "\<lfloor>real n * 13 / 10\<rfloor> = k" by (simp add: k_def floor_13_10)
  have kle: "real_of_int k \<le> real n * 13 / 10"
    using fl of_int_floor_le [of "real n * 13 / 10"] by simp
  have kge: "real n * 13 / 10 < real_of_int k + 1"
    using fl floor_correct [of "real n * 13 / 10"] by simp
  have "13 * int n = 10 * k + 13 * int n mod 10" by (simp add: k_def)
  moreover have "13 * int n mod 10 \<le> 9" by simp
  ultimately have "13 * int n \<le> 10 * k + 9" by linarith
  then have "real_of_int (13 * int n) \<le> real_of_int (10 * k + 9)" by (simp only: of_int_le_iff)
  then have k9: "real n * 13 / 10 \<le> real_of_int k + 9 / 10" by simp
  have eps: "0 \<le> real n / 22517998136852480" "real n / 22517998136852480 < 1 / 1048576"
    using nr by simp_all
  have k_le_x: "real_of_int k \<le> x" using kle eps(1) x_eq by linarith
  have x_lt: "x < real_of_int k + 9 / 10 + 1 / 1048576" using k9 eps(2) x_eq by linarith
  have k0: "0 \<le> k" by (simp add: k_def)
  have kb: "k < 4294967296" using ni by (simp add: k_def)
  have c_ge: "x * 1048576 \<le> real_of_int c" unfolding c_def by (rule le_of_int_ceiling)
  have c_lt: "real_of_int c < x * 1048576 + 1" unfolding c_def by linarith
  have d_ge: "x \<le> d" using c_ge by (simp add: d_def field_simps)
  have d_lt: "d < x + 1 / 1048576" using c_lt by (simp add: d_def field_simps)
  have "real_of_int k < 4294967296" using kb by linarith
  with x_lt have x_small: "x < 4294967297" by linarith
  have "0 \<le> x" using k_le_x k0 by linarith
  then have "0 \<le> x * 1048576" by simp
  with c_ge have "0 \<le> real_of_int c" by linarith
  then have c0: "0 \<le> c" by simp
  from x_small have "x * 1048576 < 4294967297 * 1048576" by simp
  with c_lt have "real_of_int c < real_of_int (4294967297 * 1048576 + 1)" by simp
  then have cb: "c < 4294967297 * 1048576 + 1" by (simp only: of_int_less_iff)
  have kd: "is_double (real_of_int k)" using k0 kb by (intro is_double_int) simp
  have dd: "is_double d" unfolding d_def using c0 cb by (intro is_double_grid) simp
  from r have r': "nearest_double x r" by (simp add: x_def)
  from nearest_ge [OF r' kd k_le_x] have r_ge: "real_of_int k \<le> r" .
  from nearest_le [OF r' dd d_ge] have r_le: "r \<le> d" .
  have r_lt: "r < real_of_int k + 1" using r_le d_lt x_lt by linarith
  from r_ge r_lt have "\<lfloor>r\<rfloor> = k" by (simp add: floor_unique)
  moreover have "0 \<le> r" using r_ge k0 by linarith
  moreover have "0 \<le> real n * 13 / 10" by simp
  ultimately show "py_int r = py_int (real n * (13 / 10))"
    using fl by (simp add: py_int_nonneg)
  have kd': "is_double (real_of_int (100 + k))" using k0 kb by (intro is_double_int) simp
  have "real_of_int (100 + k) \<le> 100 + r" using r_ge by simp
  from nearest_ge [OF t kd' this] have t_ge: "real_of_int (100 + k) \<le> t" .
  have g: "100 + d = real_of_int (104857600 + c) / 1048576" by (simp add: d_def field_simps)
  have dd': "is_double (100 + d)"
    unfolding g using c0 cb by (intro is_double_grid) simp
  have "100 + r \<le> 100 + d" using r_le by simp
  from nearest_le [OF t dd' this] have t_le: "t \<le> 100 + d" .
  have t_lt: "t < real_of_int (100 + k) + 1" using t_le d_lt x_lt by simp
  from t_ge t_lt have "\<lfloor>t\<rfloor> = 100 + k" by (simp add: floor_unique)
  moreover have "0 \<le> t" using t_ge k0 by simp
  moreover have "\<lfloor>100 + real n * 13 / 10\<rfloor> = 100 + k"
  proof -
    have "\<lfloor>real n * 13 / 10 + real_of_int 100\<rfloor> = \<lfloor>real n * 13 / 10\<rfloor> + 100"
      by (rule floor_add_int [symmetric])
    then show ?thesis using fl by (simp add: add.commute)
  qed
  ultimately show "py_int t = py_int (100 + real n * (13 / 10))"
    by (simp add: py_int_nonneg)
qed


lemma finite_doubles: "finite {r. is_double r}"
proof -
  have "{r. is_double r}
          \<subseteq> (\<lambda>(m, e). real_of_int m * 2 powr real_of_int e) ` ({- (2 ^ 53) .. 2 ^ 53} \<times> {- 1074 .. 971})"
  proof
    fix r assume "r \<in> {r. is_double r}"
    then obtain m e :: int where "\<bar>m\<bar> < 2 ^ 53" "- 1074 \<le> e" "e \<le> 971"
      "r = real_of_int m * 2 powr real_of_int e"
      by (auto simp: is_double_def)
    then have "(m, e) \<in> {- (2 ^ 53) .. 2 ^ 53} \<times> {- 1074 .. 971}"
      "r = (\<lambda>(m, e). real_of_int m * 2 powr real_of_int e) (m, e)"
      by auto
    then show "r \<in> (\<lambda>(m, e). real_of_int m * 2 powr real_of_int e)
                     ` ({- (2 ^ 53) .. 2 ^ 53} \<times> {- 1074 .. 971})"
      by (rule rev_image_eqI)
  qed
  moreover have "finite ((\<lambda>(m, e). real_of_int m * 2 powr real_of_int e)
                           ` ({- (2 ^ 53) .. 2 ^ 53 :: int} \<times> {- 1074 .. 971 :: int}))"
    by (intro finite_imageI finite_cartesian_product) simp_all
  ultimately show ?thesis by (rule finite_subset)
qed

lemma nearest_double_exists: "\<exists>r. nearest_double x r"
proof -
  let ?D = "{r. is_double r}"
  let ?f = "\<lambda>r. \<bar>r - x\<bar>"
  have "is_double (real_of_int 0)" by (intro is_double_int) simp
  then have ne: "?f ` ?D \<noteq> {}" by auto
  have fin: "finite (?f ` ?D)" using finite_doubles by (rule finite_imageI)
  from Min_in [OF fin ne] obtain r where r: "is_double r" "?f r = Min (?f ` ?D)" by auto
  have "?f r \<le> ?f d" if "is_double d" for d
    using that r(2) Min_le [OF fin, of "?f d"] by auto
  with r(1) show ?thesis by (auto simp: nearest_double_def)
qed

subsection \<open>Frames and token counts of a stream\<close>

lemma hello_world_engine: "\<forall>c \<in> set (chunks hello_world). engine_chunk (fst c)"
  by (simp add: hello_world_def engine_chunk_def content_chunk_def stop_chunk_def)

lemma hello_world_text: "emitted_text (chunks hello_world) = ''Hello world''"
  by (simp add: hello_world_def emitted_text_def delta_text_def content_chunk_def stop_chunk_def)

lemma hello_world_first: "first_token (chunks hello_world) = Some (13 / 2)"
  by (simp add: hello_world_def first_token_def delta_text_def content_chunk_def stop_chunk_def)

lemma hello_world_frames:
  "content_frames (chunks hello_world)
     = [Data (content_chunk ''Hello''), Data (content_chunk '' world'')]"
  by (simp add: hello_world_def content_frames_def delta_text_def content_chunk_def stop_chunk_def)

lemma hello_world_words: "py_split ''Hello world'' = [''Hello'', ''world'']"
  by (simp add: py_split_def is_space_def)

text \<open>
  C2. For every finite sequence of well-formed engine chunks that the engine ends without an
  exception, the emitter yields one content frame for each chunk whose delta carries a
  \<^verbatim>\<open>content\<close> field, in the engine's order, then the usage frame, then the terminal frame
  \<^verbatim>\<open>data: [DONE]\n\n\<close>, and nothing else.
\<close>

theorem stream_frames_in_order:
  assumes "\<forall>c \<in> set cs. engine_chunk (fst c)"
  shows "generate_stream perf clk (Inr \<lparr>chunks = cs, failure = None\<rparr>)
           = map (\<lambda>c. ''data: '' @ dumps (fst c) @ [CHR 0x0A, CHR 0x0A])
                 (filter (\<lambda>c. delta_text (fst c) \<noteq> None) cs)
             @ [''data: '' @ dumps (usage_chunk perf clk (emitted_text cs) (first_token cs))
                  @ [CHR 0x0A, CHR 0x0A],
                ''data: [DONE]'' @ [CHR 0x0A, CHR 0x0A]]"
  unfolding generate_stream_def generate_frames_engine [OF assms]
  by (simp add: content_frames_def sse_def comp_def)

theorem stream_frames_in_order_witness:
  "engine_chunk (content_chunk ''Hello'') \<and> engine_chunk (content_chunk '' world'')
   \<and> engine_chunk stop_chunk
   \<and> generate_stream False clock0 (Inr hello_world)
       = [''data: '' @ dumps (content_chunk ''Hello'') @ [CHR 0x0A, CHR 0x0A],
          ''data: '' @ dumps (content_chunk '' world'') @ [CHR 0x0A, CHR 0x0A],
          ''data: '' @ dumps (JObj
              [(''choices'', JArr [JObj [(''delta'', JObj []), (''finish_reason'', JStr ''stop'')]]),
               (''usage'', JObj [(''prompt_tokens'', JInt 100), (''completion_tokens'', JInt 2),
                                 (''total_tokens'', JInt 102)])]) @ [CHR 0x0A, CHR 0x0A],
          ''data: [DONE]'' @ [CHR 0x0A, CHR 0x0A]]"
proof -
  have u: "usage_chunk False clock0 ''Hello world'' (Some (13 / 2))
             = JObj [(''choices'', JArr [JObj [(''delta'', JObj []), (''finish_reason'', JStr ''stop'')]]),
                     (''usage'', JObj [(''prompt_tokens'', JInt 100), (''completion_tokens'', JInt 2),
                                       (''total_tokens'', JInt 102)])]"
    by (simp add: usage_chunk_def hello_world_words py_int_def Let_def)
  have h: "hello_world = \<lparr>chunks = chunks hello_world, failure = None\<rparr>"
    by (simp add: hello_world_def)
  have f: "filter (\<lambda>c. delta_text (fst c) \<noteq> None) (chunks hello_world)
             = [(content_chunk ''Hello'', 13 / 2), (content_chunk '' world'', 27 / 4)]"
    by (simp add: hello_world_def delta_text_def content_chunk_def stop_chunk_def)
  from stream_frames_in_order [OF hello_world_engine, of False clock0]
  have "generate_stream False clock0 (Inr hello_world)
          = map (\<lambda>c. ''data: '' @ dumps (fst c) @ [CHR 0x0A, CHR 0x0A])
                 (filter (\<lambda>c. delta_text (fst c) \<noteq> None) (chunks hello_world))
             @ [''data: '' @ dumps (usage_chunk False clock0 (emitted_text (chunks hello_world))
                  (first_token (chunks hello_world))) @ [CHR 0x0A, CHR 0x0A],
                ''data: [DONE]'' @ [CHR 0x0A, CHR 0x0A]]"
    using h by simp
  then show ?thesis
    unfolding f hello_world_text hello_world_first u
    using hello_world_engine by (simp add: hello_world_def)
qed

text \<open>
  C7. In every streamed response that ends with a usage frame and the terminal frame,
  \<^verbatim>\<open>completion_tokens\<close> is the number of words of the concatenated emitted text times 1.3,
  rounded down, \<^verbatim>\<open>prompt_tokens\<close> is 100 and \<^verbatim>\<open>total_tokens\<close> is their sum.
\<close>

theorem usage_token_counts:
  assumes "generate_frames perf clk created = fs @ [Data u, DoneMarker]"
  shows "\<exists>es. created = Inr es
           \<and> json_member ''usage'' u
               = Some (JObj
                   [(''prompt_tokens'', JInt 100),
                    (''completion_tokens'',
                       JInt \<lfloor>real (length (py_split (emitted_text (chunks es)))) * 13 / 10\<rfloor>),
                    (''total_tokens'',
                       JInt (100 + \<lfloor>real (length (py_split (emitted_text (chunks es)))) * 13 / 10\<rfloor>))])"
proof -
  from generate_frames_complete [OF assms] obtain es where
    "created = Inr es"
    "u = usage_chunk perf clk (emitted_text (chunks es)) (first_token (chunks es))"
    by blast
  then show ?thesis by (simp add: usage_member floor_13_10)
qed

theorem usage_token_counts_witness:
  "generate_frames False clock0 (Inr hello_world)
     = [Data (content_chunk ''Hello''), Data (content_chunk '' world'')]
       @ [Data (usage_chunk False clock0 ''Hello world'' (Some (13 / 2))), DoneMarker]
   \<and> json_member ''usage'' (usage_chunk False clock0 ''Hello world'' (Some (13 / 2)))
       = Some (JObj [(''prompt_tokens'', JInt 100), (''completion_tokens'', JInt 2),
                     (''total_tokens'', JInt 102)])"
proof -
  have h: "hello_world = \<lparr>chunks = chunks hello_world, failure = None\<rparr>"
    by (simp add: hello_world_def)
  have g: "generate_frames False clock0 (Inr hello_world)
     = [Data (content_chunk ''Hello''), Data (content_chunk '' world'')]
       @ [Data (usage_chunk False clock0 ''Hello world'' (Some (13 / 2))), DoneMarker]"
    using generate_frames_engine [OF hello_world_engine, of False clock0] h
    by (simp add: hello_world_text hello_world_first hello_world_frames)
  from usage_token_counts [OF g] show ?thesis
    using g by (simp add: hello_world_text hello_world_words)
qed

subsection \<open>Telemetry of a stream\<close>











subsection \<open>Content extraction\<close>

lemma re_match_png_abc: "re_match_data_uri ''data:image/png;base64,abc'' = Some ''abc''"
  by (simp add: re_match_data_uri_def)

lemma a2b_abc: "b64decode ''abc'' = Inl (BinasciiError ''Incorrect padding'')"
  by (simp add: b64decode_def a2b_def)

text \<open>
  C5. The claim: the extractor never raises, and a part with a malformed base64 payload is
  skipped. A data URI that matches the pattern is handed to \<^verbatim>\<open>base64.b64decode\<close> with no
  handler around it. The decoder discards characters outside the alphabet but raises
  \<^verbatim>\<open>binascii.Error\<close> on input that stops inside a quad: for the URL
  \<^verbatim>\<open>data:image/png;base64,abc\<close> the extractor raises, and the gateway answers 500.
\<close>

theorem extract_raises_on_bad_padding:
  "extract_images_from_content (content (image_message ''data:image/png;base64,abc''))
     = Inl (BinasciiError ''Incorrect padding'')
   \<and> chat_completions loaded_server clock0
        (plain_request\<lparr>messages := Some [image_message ''data:image/png;base64,abc'']\<rparr>)
     = HTTPError 500 ''Incorrect padding''"
proof -
  have i: "image_of_url (JStr ''data:image/png;base64,abc'') = Inl (BinasciiError ''Incorrect padding'')"
    by (simp add: image_of_url_def re_match_png_abc a2b_abc)
  have e: "extract_images_from_content (content (image_message ''data:image/png;base64,abc''))
     = Inl (BinasciiError ''Incorrect padding'')"
    by (simp add: extract_images_from_content_def image_message_def append_image_def i dict_get_def)
  then have "select_messages (plain_request\<lparr>messages := Some [image_message ''data:image/png;base64,abc'']\<rparr>)
     = Inl (BinasciiError ''Incorrect padding'')"
    by (simp add: select_messages_def prepare_message_def)
  then show ?thesis using e
    by (simp add: chat_completions_def chat_body_def loaded_server_def str_exn_def Let_def)
qed

text \<open>The parts of C5 that hold: a URL that is not a data URI, or does not match, is skipped.\<close>

lemma extract_not_a_data_uri:
  "extract_images_from_content (content (image_message ''not-a-data-uri'')) = Inr ([], [])"
  by (simp add: extract_images_from_content_def image_message_def append_image_def
      image_of_url_def dict_get_def)

lemma image_of_url_skips:
  assumes "\<not> prefix ''data:'' u \<or> re_match_data_uri u = None"
  shows "image_of_url (JStr u) = Inr None"
  using assms by (auto simp: image_of_url_def)

subsection \<open>Message normalization\<close>





lemma hello_b64: "b64encode [72, 101, 108, 108, 111] = ''SGVsbG8=''"
  by (simp add: b2a_def b64_alphabet_def)





subsection \<open>The proxy in front of the gateway\<close>





















end
